theory Spec2Isabelle
  imports Main "HOL-Library.Word"
begin

unbundle bit_operations_syntax

section \<open>Data model of \<open>caption.py\<close>\<close>

text \<open>
  The module has two functions: \<open>_file_to_data_url\<close>, which turns an image file into a
  \<open>data:\<close> URL, and \<open>caption\<close>, which resolves an API key, encodes the image, sends one
  request to the Responses endpoint and returns the stripped output text.

  Python \<open>str\<close> values that are only compared, tested for emptiness or a prefix, and
  concatenated (paths, keys, MIME types, the prompt, the data URL) are \<open>string\<close>.
  The generated text is a list of Unicode code points, because \<open>str.strip\<close> classifies
  code points. File contents are lists of bytes.
\<close>

type_synonym byte = "8 word"
type_synonym path = string
type_synonym unicode = "nat list"

text \<open>
  What a path refers to after symbolic links are followed, as \<open>Path.exists\<close> and
  \<open>Path.is_file\<close> see it. A path that is absent from the map does not exist.
\<close>

datatype node = RegularFile "byte list" | Directory | Special

text \<open>The two content dictionaries of the request, tagged by their \<open>"type"\<close> entry.\<close>

datatype content_part = InputText string | InputImage string

record message =
  role :: string
  content :: "content_part list"

record request =
  model :: string
  input :: "message list"
  max_output_tokens :: int

record response =
  output_text :: "unicode option"

datatype error =
    RuntimeError string
  | FileNotFoundError string
  | OSError string
  | RemoteError string

text \<open>
  Everything the two functions do to the outside world, in the order they do it.
  \<open>ResponsesCreate\<close> is the network call; \<open>Resolve\<close>, \<open>Exists\<close>, \<open>IsFile\<close> and
  \<open>ReadBytes\<close> touch the file system.
\<close>

datatype event =
    EnvGet string
  | ClientNew string
  | ExpandUser path
  | Resolve path
  | Exists path
  | IsFile path
  | GuessType string
  | ReadBytes path
  | ResponsesCreate string request

fun is_network :: "event \<Rightarrow> bool" where
  "is_network (ResponsesCreate k r) = True"
| "is_network e = False"

fun is_file_io :: "event \<Rightarrow> bool" where
  "is_file_io (Resolve p) = True"
| "is_file_io (Exists p) = True"
| "is_file_io (IsFile p) = True"
| "is_file_io (ReadBytes p) = True"
| "is_file_io e = False"

fun is_client :: "event \<Rightarrow> bool" where
  "is_client (ClientNew k) = True"
| "is_client e = False"

text \<open>
  The surroundings of a call: the process environment, the two \<open>pathlib\<close> operations
  (they depend on the home directory, the working directory and the links of the file
  system), the file system, the \<open>mimetypes\<close> registry, and the remote endpoint behind
  \<open>client.responses.create\<close>, which gets the client's key and the request and answers
  with a response or raises.
\<close>

record world =
  environ :: "string \<rightharpoonup> string"
  expanduser :: "path \<Rightarrow> path"
  resolve :: "path \<Rightarrow> path"
  files :: "path \<rightharpoonup> node"
  guess_type :: "string \<Rightarrow> string option"
  responses_create :: "string \<Rightarrow> request \<Rightarrow> error + response"

section \<open>Library functions the module calls\<close>

subsection \<open>\<open>base64.b64encode\<close> and \<open>base64.b64decode\<close>\<close>

text \<open>
  The standard alphabet with \<open>=\<close> padding: three bytes become four characters, each
  standing for six bits. The result of \<open>b64encode\<close> is ASCII, so \<open>.decode("utf-8")\<close>
  leaves it as it is.
\<close>

definition b64_alphabet :: string where
  "b64_alphabet = ''ABCDEFGHIJKLMNOPQRSTUVWXYZabcdefghijklmnopqrstuvwxyz0123456789+/''"

definition enc6 :: "byte \<Rightarrow> char" where
  "enc6 s = b64_alphabet ! unat s"



text \<open>The four six-bit values of a group of three bytes \<open>a\<close>, \<open>b\<close>, \<open>c\<close>.\<close>

definition sextet0 :: "byte \<Rightarrow> byte" where
  "sextet0 a = drop_bit 2 a"

definition sextet1 :: "byte \<Rightarrow> byte \<Rightarrow> byte" where
  "sextet1 a b = push_bit 4 (a AND 3) OR drop_bit 4 b"

definition sextet2 :: "byte \<Rightarrow> byte \<Rightarrow> byte" where
  "sextet2 b c = push_bit 2 (b AND 15) OR drop_bit 6 c"

definition sextet3 :: "byte \<Rightarrow> byte" where
  "sextet3 c = c AND 63"

text \<open>A last group of one or two bytes is filled up with zero bits and padded with \<open>=\<close>.\<close>

fun b64encode :: "byte list \<Rightarrow> string" where
  "b64encode [] = []"
| "b64encode [a] =
     [enc6 (sextet0 a), enc6 (sextet1 a 0), CHR ''='', CHR ''='']"
| "b64encode [a, b] =
     [enc6 (sextet0 a), enc6 (sextet1 a b), enc6 (sextet2 b 0), CHR ''='']"
| "b64encode (a # b # c # rest) =
     [enc6 (sextet0 a), enc6 (sextet1 a b), enc6 (sextet2 b c), enc6 (sextet3 c)]
     @ b64encode rest"





subsection \<open>\<open>str.startswith\<close>, truthiness and \<open>str.strip\<close>\<close>

definition startswith :: "string \<Rightarrow> string \<Rightarrow> bool" where
  "startswith s pre \<longleftrightarrow> take (length pre) s = pre"

text \<open>An optional string is falsy when it is \<open>None\<close> or empty.\<close>

fun truthy :: "string option \<Rightarrow> bool" where
  "truthy None = False"
| "truthy (Some s) = (s \<noteq> [])"

text \<open>The code points for which \<open>str.isspace\<close> holds; \<open>strip()\<close> removes exactly these.\<close>

definition is_space :: "nat \<Rightarrow> bool" where
  "is_space c \<longleftrightarrow>
     (9 \<le> c \<and> c \<le> 13) \<or> (28 \<le> c \<and> c \<le> 32) \<or> c = 133 \<or> c = 160 \<or> c = 5760 \<or>
     (8192 \<le> c \<and> c \<le> 8202) \<or> c = 8232 \<or> c = 8233 \<or> c = 8239 \<or> c = 8287 \<or> c = 12288"

definition lstrip :: "unicode \<Rightarrow> unicode" where
  "lstrip s = dropWhile is_space s"

definition rstrip :: "unicode \<Rightarrow> unicode" where
  "rstrip s = rev (dropWhile is_space (rev s))"

definition strip :: "unicode \<Rightarrow> unicode" where
  "strip s = rstrip (lstrip s)"

definition codepoints :: "string \<Rightarrow> unicode" where
  "codepoints s = map of_char s"

subsection \<open>\<open>pathlib\<close> on the file system\<close>

definition path_exists :: "world \<Rightarrow> path \<Rightarrow> bool" where
  "path_exists w p \<longleftrightarrow> files w p \<noteq> None"

definition path_is_file :: "world \<Rightarrow> path \<Rightarrow> bool" where
  "path_is_file w p \<longleftrightarrow> (case files w p of Some (RegularFile bs) \<Rightarrow> True | _ \<Rightarrow> False)"

definition read_bytes :: "world \<Rightarrow> path \<Rightarrow> error + byte list" where
  "read_bytes w p =
     (case files w p of
        Some (RegularFile bs) \<Rightarrow> Inr bs
      | Some Directory \<Rightarrow> Inl (OSError ''Is a directory'')
      | Some Special \<Rightarrow> Inl (OSError ''Not a regular file'')
      | None \<Rightarrow> Inl (OSError ''No such file or directory''))"

section \<open>The module\<close>

subsection \<open>\<open>_file_to_data_url\<close>\<close>

definition file_to_data_url :: "world \<Rightarrow> path \<Rightarrow> event list \<times> (error + string)" where
  "file_to_data_url w image_path =
     (if \<not> path_exists w image_path then
        ([Exists image_path], Inl (FileNotFoundError (''Image not found: '' @ image_path)))
      else if \<not> path_is_file w image_path then
        ([Exists image_path, IsFile image_path],
         Inl (FileNotFoundError (''Image not found: '' @ image_path)))
      else
        (let mime_type =
               (case guess_type w image_path of
                  None \<Rightarrow> ''image/png''
                | Some m \<Rightarrow> if \<not> startswith m ''image/'' then ''image/png'' else m);
             evs = [Exists image_path, IsFile image_path, GuessType image_path,
                    ReadBytes image_path]
         in case read_bytes w image_path of
              Inl e \<Rightarrow> (evs, Inl e)
            | Inr bs \<Rightarrow> (evs, Inr (''data:'' @ mime_type @ '';base64,'' @ b64encode bs))))"

subsection \<open>\<open>caption\<close>\<close>

definition default_prompt :: string where
  "default_prompt = ''Write a concise, vivid caption for this image (1 sentence).''"

definition default_model :: string where
  "default_model = ''gpt-4.1-mini''"

definition default_max_output_tokens :: int where
  "default_max_output_tokens = 80"

definition missing_key :: error where
  "missing_key = RuntimeError ''OPENAI_API_KEY is not set (and api_key was not provided).''"

text \<open>
  \<open>api_key or os.environ.get("OPENAI_API_KEY")\<close> reads the environment only when
  \<open>api_key\<close> is falsy. The coroutine awaits one call and nothing else, so it is a
  function from the world to the events it caused and its result or exception.
\<close>

definition caption ::
  "world \<Rightarrow> path \<Rightarrow> string \<Rightarrow> string \<Rightarrow> int \<Rightarrow> string option \<Rightarrow> event list \<times> (error + unicode)"
where
  "caption w image_path prompt model_name max_tokens api_key =
     (let (t_key, key) =
            (if truthy api_key then ([], api_key)
             else ([EnvGet ''OPENAI_API_KEY''], environ w ''OPENAI_API_KEY''))
      in case key of
           None \<Rightarrow> (t_key, Inl missing_key)
         | Some k \<Rightarrow>
             if k = [] then (t_key, Inl missing_key)
             else
               (let home_path = expanduser w image_path;
                    path = resolve w home_path;
                    (t_enc, enc) = file_to_data_url w path;
                    t_pre = t_key @ [ClientNew k, ExpandUser image_path, Resolve home_path] @ t_enc
                in case enc of
                     Inl e \<Rightarrow> (t_pre, Inl e)
                   | Inr data_url \<Rightarrow>
                       (let req = \<lparr>model = model_name,
                                   input = [\<lparr>role = ''user'',
                                             content = [InputText prompt, InputImage data_url]\<rparr>],
                                   max_output_tokens = max_tokens\<rparr>;
                            t_all = t_pre @ [ResponsesCreate k req]
                        in case responses_create w k req of
                             Inl e \<Rightarrow> (t_all, Inl e)
                           | Inr resp \<Rightarrow>
                               (t_all,
                                Inr (strip (case output_text resp of
                                              None \<Rightarrow> []
                                            | Some t \<Rightarrow> if t = [] then [] else t))))))"

text \<open>The requests that a run sent, read off its events.\<close>

fun sent_requests :: "event list \<Rightarrow> request list" where
  "sent_requests [] = []"
| "sent_requests (ResponsesCreate k r # es) = r # sent_requests es"
| "sent_requests (e # es) = sent_requests es"

text \<open>
  A request with the text of every text part replaced, and nothing else touched: the
  model, the token limit, the messages, their roles and their image parts stay.
\<close>

definition with_text :: "string \<Rightarrow> request \<Rightarrow> request" where
  "with_text p r =
     r\<lparr>input :=
         map (\<lambda>msg. msg\<lparr>content :=
                          map (\<lambda>c. case c of InputText t \<Rightarrow> InputText p
                                             | InputImage u \<Rightarrow> InputImage u)
                            (content msg)\<rparr>)
           (input r)\<rparr>"

subsection \<open>A small world for running the functions\<close>

text \<open>
  A home directory \<open>/home/u\<close> that is also the working directory, holding the three-byte
  file \<open>cat.png\<close>, a text file \<open>notes.txt\<close> and a file \<open>blob\<close> without extension; an
  endpoint that answers every request with the same text.
\<close>

definition demo_expanduser :: "path \<Rightarrow> path" where
  "demo_expanduser p =
     (if p = ''~'' then ''/home/u''
      else if take 2 p = ''~/'' then ''/home/u'' @ drop 1 p
      else p)"

definition demo_resolve :: "path \<Rightarrow> path" where
  "demo_resolve p = (if take 1 p = ''/'' then p else ''/home/u/'' @ p)"

definition demo_files :: "path \<rightharpoonup> node" where
  "demo_files =
     [''/home/u'' \<mapsto> Directory,
      ''/home/u/cat.png'' \<mapsto> RegularFile [77, 97, 110],
      ''/home/u/notes.txt'' \<mapsto> RegularFile [104, 105],
      ''/home/u/blob'' \<mapsto> RegularFile [255]]"

definition demo_guess_type :: "string \<Rightarrow> string option" where
  "demo_guess_type p =
     (if p = ''/home/u/cat.png'' then Some ''image/png''
      else if p = ''/home/u/notes.txt'' then Some ''text/plain''
      else None)"

definition demo_world :: "string option \<Rightarrow> unicode option \<Rightarrow> world" where
  "demo_world env_key text =
     \<lparr>environ = (\<lambda>name. if name = ''OPENAI_API_KEY'' then env_key else None),
      expanduser = demo_expanduser,
      resolve = demo_resolve,
      files = demo_files,
      guess_type = demo_guess_type,
      responses_create = (\<lambda>k r. Inr \<lparr>output_text = text\<rparr>)\<rparr>"

section \<open>Base64 round trip\<close>



























section \<open>Facts about the encoder and the example world\<close>

lemma file_to_data_url_regular:
  assumes "files w p = Some (RegularFile bs)"
  shows "file_to_data_url w p =
           ([Exists p, IsFile p, GuessType p, ReadBytes p],
            Inr (''data:'' @
                 (case guess_type w p of
                    None \<Rightarrow> ''image/png''
                  | Some m \<Rightarrow> if \<not> startswith m ''image/'' then ''image/png'' else m)
                 @ '';base64,'' @ b64encode bs))"
  using assms
  by (simp add: file_to_data_url_def path_exists_def path_is_file_def read_bytes_def)


lemma demo_files_simps:
  "files (demo_world e t) ''/home/u/cat.png'' = Some (RegularFile [77, 97, 110])"
  "files (demo_world e t) ''/home/u/notes.txt'' = Some (RegularFile [104, 105])"
  "files (demo_world e t) ''/home/u/blob'' = Some (RegularFile [255])"
  "files (demo_world e t) ''/home/u'' = Some Directory"
  "files (demo_world e t) ''/home/u/dog.png'' = None"
  by (simp_all add: demo_world_def demo_files_def)

lemma demo_guess_simps:
  "guess_type (demo_world e t) ''/home/u/cat.png'' = Some ''image/png''"
  "guess_type (demo_world e t) ''/home/u/notes.txt'' = Some ''text/plain''"
  "guess_type (demo_world e t) ''/home/u/blob'' = None"
  by (simp_all add: demo_world_def demo_guess_type_def)

lemma demo_payloads:
  "b64encode [77, 97, 110] = ''TWFu''"
  "b64encode [104, 105] = ''aGk=''"
  "b64encode [255] = ''/w==''"
  by code_simp+

lemma demo_data_urls:
  "file_to_data_url (demo_world e t) ''/home/u/cat.png'' =
     ([Exists ''/home/u/cat.png'', IsFile ''/home/u/cat.png'', GuessType ''/home/u/cat.png'',
       ReadBytes ''/home/u/cat.png''], Inr ''data:image/png;base64,TWFu'')"
  "snd (file_to_data_url (demo_world e t) ''/home/u/notes.txt'') = Inr ''data:image/png;base64,aGk=''"
  "snd (file_to_data_url (demo_world e t) ''/home/u/blob'') = Inr ''data:image/png;base64,/w==''"
  by (simp_all add: file_to_data_url_regular [OF demo_files_simps(1)]
        file_to_data_url_regular [OF demo_files_simps(2)]
        file_to_data_url_regular [OF demo_files_simps(3)]
        demo_guess_simps demo_payloads startswith_def del: b64encode.simps)

lemma encoder_events:
  "set (fst (file_to_data_url w p)) \<subseteq> {Exists p, IsFile p, GuessType p, ReadBytes p}"
  by (auto simp: file_to_data_url_def Let_def split: sum.splits)

lemma encoder_sends_nothing: "sent_requests (fst (file_to_data_url w p)) = []"
  by (auto simp: file_to_data_url_def Let_def split: sum.splits)

lemma sent_requests_append: "sent_requests (xs @ ys) = sent_requests xs @ sent_requests ys"
  by (induction xs rule: sent_requests.induct) simp_all

lemma sent_requests_mem: "r \<in> set (sent_requests es) \<longleftrightarrow> (\<exists>k. ResponsesCreate k r \<in> set es)"
  by (induction es rule: sent_requests.induct) auto

lemma caption_unresolved:
  assumes "\<not> truthy ak"
    and "environ w ''OPENAI_API_KEY'' = None \<or> environ w ''OPENAI_API_KEY'' = Some []"
  shows "caption w ip pr m n ak = ([EnvGet ''OPENAI_API_KEY''], Inl missing_key)"
  using assms by (auto simp: caption_def)

lemma caption_resolved:
  assumes "ak = Some k \<and> k \<noteq> [] \<and> t = [] \<or>
           \<not> truthy ak \<and> environ w ''OPENAI_API_KEY'' = Some k \<and> k \<noteq> [] \<and>
             t = [EnvGet ''OPENAI_API_KEY'']"
  shows "caption w ip pr m n ak =
           (case file_to_data_url w (resolve w (expanduser w ip)) of
              (te, Inl e) \<Rightarrow>
                (t @ [ClientNew k, ExpandUser ip, Resolve (expanduser w ip)] @ te, Inl e)
            | (te, Inr url) \<Rightarrow>
                (t @ [ClientNew k, ExpandUser ip, Resolve (expanduser w ip)] @ te @
                 [ResponsesCreate k
                    \<lparr>model = m,
                     input = [\<lparr>role = ''user'', content = [InputText pr, InputImage url]\<rparr>],
                     max_output_tokens = n\<rparr>],
                 case responses_create w k
                        \<lparr>model = m,
                         input = [\<lparr>role = ''user'', content = [InputText pr, InputImage url]\<rparr>],
                         max_output_tokens = n\<rparr> of
                   Inl e \<Rightarrow> Inl e
                 | Inr resp \<Rightarrow>
                     Inr (strip (case output_text resp of None \<Rightarrow> [] | Some x \<Rightarrow> x))))"
  using assms
  by (auto simp: caption_def Let_def split: prod.splits sum.splits option.splits)

lemma key_cases:
  obtains (missing) "\<not> truthy ak" "environ w ''OPENAI_API_KEY'' = None \<or> environ w ''OPENAI_API_KEY'' = Some []"
  | (given) k where "ak = Some k" "k \<noteq> []"
  | (env) k where "\<not> truthy ak" "environ w ''OPENAI_API_KEY'' = Some k" "k \<noteq> []"
  by (cases ak; cases "environ w ''OPENAI_API_KEY''") auto


lemma no_request_in_encoder: "ResponsesCreate k r \<notin> set (fst (file_to_data_url w p))"
  using encoder_events [of w p] by auto

lemma caption_sent_resolved:
  assumes run: "ak = Some k' \<and> k' \<noteq> [] \<and> t = [] \<or>
           \<not> truthy ak \<and> environ w ''OPENAI_API_KEY'' = Some k' \<and> k' \<noteq> [] \<and>
             t = [EnvGet ''OPENAI_API_KEY'']"
    and sent: "ResponsesCreate k req \<in> set (fst (caption w ip pr m n ak))"
  shows "\<exists>te url.
           file_to_data_url w (resolve w (expanduser w ip)) = (te, Inr url) \<and>
           req = \<lparr>model = m,
                  input = [\<lparr>role = ''user'', content = [InputText pr, InputImage url]\<rparr>],
                  max_output_tokens = n\<rparr> \<and>
           k = k' \<and>
           snd (caption w ip pr m n ak) =
             (case responses_create w k req of
                Inl e \<Rightarrow> Inl e
              | Inr resp \<Rightarrow> Inr (strip (case output_text resp of None \<Rightarrow> [] | Some x \<Rightarrow> x))) \<and>
           sent_requests (fst (caption w ip pr m n ak)) = [req]"
proof -
  obtain te enc where enc: "file_to_data_url w (resolve w (expanduser w ip)) = (te, enc)"
    by (cases "file_to_data_url w (resolve w (expanduser w ip))")
  have te: "ResponsesCreate k req \<notin> set te" "sent_requests te = []"
    using no_request_in_encoder [of k req w "resolve w (expanduser w ip)"]
      encoder_sends_nothing [of w "resolve w (expanduser w ip)"] enc by simp_all
  have t: "ResponsesCreate k req \<notin> set t" "sent_requests t = []"
    using run by auto
  show ?thesis
  proof (cases enc)
    case (Inl e)
    with enc have "fst (caption w ip pr m n ak) =
        t @ [ClientNew k', ExpandUser ip, Resolve (expanduser w ip)] @ te"
      by (simp add: caption_resolved [OF run])
    with sent te t show ?thesis by simp
  next
    case (Inr url)
    let ?req = "\<lparr>model = m,
                 input = [\<lparr>role = ''user'', content = [InputText pr, InputImage url]\<rparr>],
                 max_output_tokens = n\<rparr>"
    from enc Inr have c: "caption w ip pr m n ak =
        (t @ [ClientNew k', ExpandUser ip, Resolve (expanduser w ip)] @ te @
           [ResponsesCreate k' ?req],
         case responses_create w k' ?req of
           Inl e \<Rightarrow> Inl e
         | Inr resp \<Rightarrow> Inr (strip (case output_text resp of None \<Rightarrow> [] | Some x \<Rightarrow> x)))"
      by (simp add: caption_resolved [OF run])
    from sent te t have eq: "k = k'" "req = ?req"
      unfolding c by auto
    have "sent_requests (fst (caption w ip pr m n ak)) = [?req]"
      unfolding c by (simp add: sent_requests_append te t)
    with eq enc Inr c show ?thesis by simp
  qed
qed

lemma caption_sent:
  assumes sent: "ResponsesCreate k req \<in> set (fst (caption w ip pr m n ak))"
  obtains te url where
    "file_to_data_url w (resolve w (expanduser w ip)) = (te, Inr url)"
    "req = \<lparr>model = m,
            input = [\<lparr>role = ''user'', content = [InputText pr, InputImage url]\<rparr>],
            max_output_tokens = n\<rparr>"
    "ak = Some k \<and> k \<noteq> [] \<or>
     \<not> truthy ak \<and> environ w ''OPENAI_API_KEY'' = Some k \<and> k \<noteq> []"
    "snd (caption w ip pr m n ak) =
       (case responses_create w k req of
          Inl e \<Rightarrow> Inl e
        | Inr resp \<Rightarrow> Inr (strip (case output_text resp of None \<Rightarrow> [] | Some x \<Rightarrow> x)))"
    "sent_requests (fst (caption w ip pr m n ak)) = [req]"
proof (cases ak w rule: key_cases)
  case missing
  with sent show ?thesis by (simp add: caption_unresolved)
next
  case (given k')
  then have "ak = Some k' \<and> k' \<noteq> [] \<and> [] = [] \<or>
         \<not> truthy ak \<and> environ w ''OPENAI_API_KEY'' = Some k' \<and> k' \<noteq> [] \<and>
           [] = [EnvGet ''OPENAI_API_KEY'']" by simp
  from caption_sent_resolved [OF this sent] given that show ?thesis by blast
next
  case (env k')
  then have "ak = Some k' \<and> k' \<noteq> [] \<and> [EnvGet ''OPENAI_API_KEY''] = [] \<or>
         \<not> truthy ak \<and> environ w ''OPENAI_API_KEY'' = Some k' \<and> k' \<noteq> [] \<and>
           [EnvGet ''OPENAI_API_KEY''] = [EnvGet ''OPENAI_API_KEY'']" by simp
  from caption_sent_resolved [OF this sent] env that show ?thesis by blast
qed


lemma rstrip_split: "\<exists>r. x = rstrip x @ r \<and> (\<forall>c\<in>set r. is_space c)"
proof -
  have "rev (dropWhile is_space (rev x)) @ rev (takeWhile is_space (rev x)) =
        rev (takeWhile is_space (rev x) @ dropWhile is_space (rev x))"
    by (simp only: rev_append)
  also have "\<dots> = x" by simp
  finally have "x = rstrip x @ rev (takeWhile is_space (rev x))"
    by (simp only: rstrip_def)
  moreover have "\<forall>c\<in>set (rev (takeWhile is_space (rev x))). is_space c"
    by (auto dest: set_takeWhileD)
  ultimately show ?thesis by blast
qed

lemma lstrip_split: "\<exists>l. s = l @ lstrip s \<and> (\<forall>c\<in>set l. is_space c)"
proof -
  have "s = takeWhile is_space s @ lstrip s" by (simp add: lstrip_def)
  moreover have "\<forall>c\<in>set (takeWhile is_space s). is_space c"
    by (auto dest: set_takeWhileD)
  ultimately show ?thesis by blast
qed

lemma strip_split:
  "\<exists>l r. s = l @ strip s @ r \<and> (\<forall>c\<in>set l. is_space c) \<and> (\<forall>c\<in>set r. is_space c)"
proof -
  obtain l where l: "s = l @ lstrip s" "\<forall>c\<in>set l. is_space c"
    using lstrip_split [of s] by blast
  obtain r where r: "lstrip s = rstrip (lstrip s) @ r" "\<forall>c\<in>set r. is_space c"
    using rstrip_split [of "lstrip s"] by blast
  from l(1) r(1) have "s = l @ strip s @ r" by (simp add: strip_def)
  with l(2) r(2) show ?thesis by blast
qed

lemma rstrip_last: "rstrip x \<noteq> [] \<Longrightarrow> \<not> is_space (last (rstrip x))"
  using hd_dropWhile [of is_space "rev x"] by (simp add: rstrip_def last_rev)

lemma strip_ends:
  assumes "strip s \<noteq> []"
  shows "\<not> is_space (hd (strip s))" and "\<not> is_space (last (strip s))"
proof -
  from assms show "\<not> is_space (last (strip s))"
    unfolding strip_def by (rule rstrip_last)
  obtain r where r: "lstrip s = strip s @ r"
    using rstrip_split [of "lstrip s"] by (auto simp: strip_def)
  with assms have "hd (strip s) = hd (lstrip s)" by (metis hd_append2)
  moreover from r assms have "lstrip s \<noteq> []" by auto
  then have "\<not> is_space (hd (lstrip s))"
    unfolding lstrip_def by (rule hd_dropWhile)
  ultimately show "\<not> is_space (hd (strip s))" by simp
qed

lemma strip_demo:
  "strip (codepoints ''  A cat sits on a mat.  '') = codepoints ''A cat sits on a mat.''"
  by code_simp

lemma strip_empty: "strip [] = []"
  by (simp add: strip_def lstrip_def rstrip_def)


lemma demo_world_simps:
  "environ (demo_world e t) ''OPENAI_API_KEY'' = e"
  "expanduser (demo_world e t) = demo_expanduser"
  "resolve (demo_world e t) = demo_resolve"
  "responses_create (demo_world e t) k r = Inr \<lparr>output_text = t\<rparr>"
  by (simp_all add: demo_world_def)

lemma demo_paths:
  "demo_resolve (demo_expanduser ''cat.png'') = ''/home/u/cat.png''"
  "demo_resolve (demo_expanduser ''~/cat.png'') = ''/home/u/cat.png''"
  "demo_resolve (demo_expanduser ''/home/u/cat.png'') = ''/home/u/cat.png''"
  "demo_resolve (demo_expanduser ''dog.png'') = ''/home/u/dog.png''"
  by (simp_all add: demo_resolve_def demo_expanduser_def)

lemma demo_caption:
  assumes "demo_resolve (demo_expanduser ip) = ''/home/u/cat.png''"
  shows "caption (demo_world (Some ''sk-demo'') t) ip pr m n None =
           ([EnvGet ''OPENAI_API_KEY'', ClientNew ''sk-demo'', ExpandUser ip,
             Resolve (demo_expanduser ip), Exists ''/home/u/cat.png'',
             IsFile ''/home/u/cat.png'', GuessType ''/home/u/cat.png'',
             ReadBytes ''/home/u/cat.png'',
             ResponsesCreate ''sk-demo''
               \<lparr>model = m,
                input = [\<lparr>role = ''user'',
                          content = [InputText pr, InputImage ''data:image/png;base64,TWFu'']\<rparr>],
                max_output_tokens = n\<rparr>],
            Inr (strip (case t of None \<Rightarrow> [] | Some x \<Rightarrow> x)))"
proof -
  have "None = Some ''sk-demo'' \<and> ''sk-demo'' \<noteq> [] \<and> [EnvGet ''OPENAI_API_KEY''] = [] \<or>
        \<not> truthy None \<and>
        environ (demo_world (Some ''sk-demo'') t) ''OPENAI_API_KEY'' = Some ''sk-demo'' \<and>
        ''sk-demo'' \<noteq> [] \<and> [EnvGet ''OPENAI_API_KEY''] = [EnvGet ''OPENAI_API_KEY'']"
    by (simp add: demo_world_simps)
  from caption_resolved [OF this] assms show ?thesis
    by (simp add: demo_world_simps demo_data_urls)
qed

section \<open>The encoder\<close>



section \<open>Keys, files and output text\<close>

text \<open>
  Claim C2. When no key is passed and the environment variable is unset, the call raises
  the missing-key \<open>RuntimeError\<close>. All it did before was to read the environment: no
  client was made, no path was touched and no request was sent.
\<close>

theorem caption_missing_key:
  assumes "environ w ''OPENAI_API_KEY'' = None"
  shows "snd (caption w image_path prompt m n None) =
           Inl (RuntimeError ''OPENAI_API_KEY is not set (and api_key was not provided).'') \<and>
         fst (caption w image_path prompt m n None) = [EnvGet ''OPENAI_API_KEY''] \<and>
         (\<forall>e \<in> set (fst (caption w image_path prompt m n None)).
            \<not> is_network e \<and> \<not> is_file_io e \<and> \<not> is_client e)"
  using assms by (simp add: caption_unresolved missing_key_def)

theorem caption_missing_key_witness:
  "environ (demo_world None None) ''OPENAI_API_KEY'' = None \<and>
   caption (demo_world None None) ''cat.png'' default_prompt default_model
     default_max_output_tokens None =
     ([EnvGet ''OPENAI_API_KEY''],
      Inl (RuntimeError ''OPENAI_API_KEY is not set (and api_key was not provided).''))"
proof -
  have h: "environ (demo_world None None) ''OPENAI_API_KEY'' = None"
    by (simp add: demo_world_simps)
  from caption_missing_key [OF h, of "''cat.png''" default_prompt default_model
      default_max_output_tokens] h
  show ?thesis by (simp add: prod_eq_iff)
qed





text \<open>
  Claim C5. When the request was sent and the endpoint answered it with a text, the call
  returns that text stripped: the text is the result between two runs of whitespace,
  and the result neither starts nor ends with whitespace. The example text
  \<open>"  A cat sits on a mat.  "\<close> comes back as \<open>"A cat sits on a mat."\<close>.
\<close>

theorem caption_strips_output:
  assumes "ResponsesCreate k req \<in> set (fst (caption w image_path prompt m n api_key))"
    and "responses_create w k req = Inr resp"
    and "output_text resp = Some t"
  shows "snd (caption w image_path prompt m n api_key) = Inr (strip t) \<and>
         (\<exists>l r. t = l @ strip t @ r \<and> (\<forall>c\<in>set l. is_space c) \<and> (\<forall>c\<in>set r. is_space c)) \<and>
         (strip t \<noteq> [] \<longrightarrow> \<not> is_space (hd (strip t)) \<and> \<not> is_space (last (strip t)))"
proof -
  from assms(1) have "snd (caption w image_path prompt m n api_key) =
       (case responses_create w k req of
          Inl e \<Rightarrow> Inl e
        | Inr resp \<Rightarrow> Inr (strip (case output_text resp of None \<Rightarrow> [] | Some x \<Rightarrow> x)))"
    by (rule caption_sent)
  with assms(2,3) have "snd (caption w image_path prompt m n api_key) = Inr (strip t)"
    by simp
  with strip_split [of t] strip_ends [of t] show ?thesis by blast
qed

theorem caption_strips_output_witness:
  "ResponsesCreate ''sk-demo''
     \<lparr>model = default_model,
      input = [\<lparr>role = ''user'',
                content = [InputText default_prompt,
                           InputImage ''data:image/png;base64,TWFu'']\<rparr>],
      max_output_tokens = default_max_output_tokens\<rparr>
     \<in> set (fst (caption
                  (demo_world (Some ''sk-demo'') (Some (codepoints ''  A cat sits on a mat.  '')))
                  ''cat.png'' default_prompt default_model default_max_output_tokens None)) \<and>
   snd (caption (demo_world (Some ''sk-demo'') (Some (codepoints ''  A cat sits on a mat.  '')))
          ''cat.png'' default_prompt default_model default_max_output_tokens None) =
     Inr (codepoints ''A cat sits on a mat.'')"
proof -
  let ?w = "demo_world (Some ''sk-demo'') (Some (codepoints ''  A cat sits on a mat.  ''))"
  let ?req = "\<lparr>model = default_model,
               input = [\<lparr>role = ''user'',
                         content = [InputText default_prompt,
                                    InputImage ''data:image/png;base64,TWFu'']\<rparr>],
               max_output_tokens = default_max_output_tokens\<rparr>"
  have sent: "ResponsesCreate ''sk-demo'' ?req
      \<in> set (fst (caption ?w ''cat.png'' default_prompt default_model
                    default_max_output_tokens None))"
    by (simp add: demo_caption [OF demo_paths(1)])
  have resp: "responses_create ?w ''sk-demo'' ?req =
      Inr \<lparr>output_text = Some (codepoints ''  A cat sits on a mat.  '')\<rparr>"
    by (simp add: demo_world_simps)
  have out: "output_text \<lparr>output_text = Some (codepoints ''  A cat sits on a mat.  '')\<rparr> =
      Some (codepoints ''  A cat sits on a mat.  '')"
    by simp
  from caption_strips_output [OF sent resp out]
  have "snd (caption ?w ''cat.png'' default_prompt default_model default_max_output_tokens None) =
      Inr (strip (codepoints ''  A cat sits on a mat.  ''))"
    by blast
  with sent show ?thesis by (simp only: strip_demo simp_thms)
qed

text \<open>
  Claim C6. When the endpoint's answer has no text (\<open>output_text\<close> is \<open>None\<close> or
  empty), the call returns the empty string and does not fail.
\<close>

theorem caption_empty_output:
  assumes "ResponsesCreate k req \<in> set (fst (caption w image_path prompt m n api_key))"
    and "responses_create w k req = Inr resp"
    and "output_text resp = None \<or> output_text resp = Some []"
  shows "snd (caption w image_path prompt m n api_key) = Inr []"
proof -
  from assms(1) have "snd (caption w image_path prompt m n api_key) =
       (case responses_create w k req of
          Inl e \<Rightarrow> Inl e
        | Inr resp \<Rightarrow> Inr (strip (case output_text resp of None \<Rightarrow> [] | Some x \<Rightarrow> x)))"
    by (rule caption_sent)
  with assms(2,3) show ?thesis
    by (auto simp: strip_empty)
qed

theorem caption_empty_output_witness:
  "ResponsesCreate ''sk-demo''
     \<lparr>model = default_model,
      input = [\<lparr>role = ''user'',
                content = [InputText default_prompt,
                           InputImage ''data:image/png;base64,TWFu'']\<rparr>],
      max_output_tokens = default_max_output_tokens\<rparr>
     \<in> set (fst (caption (demo_world (Some ''sk-demo'') None)
                  ''cat.png'' default_prompt default_model default_max_output_tokens None)) \<and>
   snd (caption (demo_world (Some ''sk-demo'') None)
          ''cat.png'' default_prompt default_model default_max_output_tokens None) = Inr []"
proof -
  let ?w = "demo_world (Some ''sk-demo'') None"
  let ?req = "\<lparr>model = default_model,
               input = [\<lparr>role = ''user'',
                         content = [InputText default_prompt,
                                    InputImage ''data:image/png;base64,TWFu'']\<rparr>],
               max_output_tokens = default_max_output_tokens\<rparr>"
  have sent: "ResponsesCreate ''sk-demo'' ?req
      \<in> set (fst (caption ?w ''cat.png'' default_prompt default_model
                    default_max_output_tokens None))"
    by (simp add: demo_caption [OF demo_paths(1)])
  have resp: "responses_create ?w ''sk-demo'' ?req = Inr \<lparr>output_text = None\<rparr>"
    by (simp add: demo_world_simps)
  have out: "output_text \<lparr>output_text = None\<rparr> = None \<or>
              output_text \<lparr>output_text = None\<rparr> = Some []"
    by simp
  from caption_empty_output [OF sent resp out] sent show ?thesis
    by (simp only: simp_thms)
qed

section \<open>The request and the path\<close>



lemma with_text_request:
  "with_text p \<lparr>model = m,
                input = [\<lparr>role = r, content = [InputText q, InputImage url]\<rparr>],
                max_output_tokens = n\<rparr> =
     \<lparr>model = m, input = [\<lparr>role = r, content = [InputText p, InputImage url]\<rparr>],
      max_output_tokens = n\<rparr>"
  by (simp add: with_text_def)

lemma sent_requests_caption:
  "sent_requests (fst (caption w ip pr m n ak)) = [] \<and>
     (\<forall>pr' n'. sent_requests (fst (caption w ip pr' m n' ak)) = []) \<or>
   (\<exists>url. \<forall>pr' n'. sent_requests (fst (caption w ip pr' m n' ak)) =
      [\<lparr>model = m, input = [\<lparr>role = ''user'', content = [InputText pr', InputImage url]\<rparr>],
        max_output_tokens = n'\<rparr>])"
proof -
  obtain te enc where enc: "file_to_data_url w (resolve w (expanduser w ip)) = (te, enc)"
    by (cases "file_to_data_url w (resolve w (expanduser w ip))")
  have te: "sent_requests te = []"
    using encoder_sends_nothing [of w "resolve w (expanduser w ip)"] enc by simp
  have resolved: ?thesis
    if run: "ak = Some k \<and> k \<noteq> [] \<and> t = [] \<or>
           \<not> truthy ak \<and> environ w ''OPENAI_API_KEY'' = Some k \<and> k \<noteq> [] \<and>
             t = [EnvGet ''OPENAI_API_KEY'']" for k t
  proof -
    from run have t: "sent_requests t = []" by auto
    show ?thesis
    proof (cases enc)
      case (Inl e)
      with enc te t have "\<forall>pr' n'. sent_requests (fst (caption w ip pr' m n' ak)) = []"
        by (simp add: caption_resolved [OF run] sent_requests_append)
      then show ?thesis by simp
    next
      case (Inr url)
      with enc te t have "\<forall>pr' n'. sent_requests (fst (caption w ip pr' m n' ak)) =
          [\<lparr>model = m, input = [\<lparr>role = ''user'', content = [InputText pr', InputImage url]\<rparr>],
            max_output_tokens = n'\<rparr>]"
        by (simp add: caption_resolved [OF run] sent_requests_append)
      then show ?thesis by blast
    qed
  qed
  show ?thesis
  proof (cases ak w rule: key_cases)
    case missing
    then show ?thesis by (simp add: caption_unresolved)
  next
    case (given k)
    then show ?thesis by (intro resolved [of k "[]"]) simp
  next
    case (env k)
    then show ?thesis by (intro resolved [of k "[EnvGet ''OPENAI_API_KEY'']"]) simp
  qed
qed

text \<open>
  Claim C8. Two calls that differ only in the prompt send requests that differ only in
  the text part: the second call's requests are the first's with the text replaced.
  Two calls that differ only in the token limit send requests that differ only in
  \<open>max_output_tokens\<close>.
\<close>

theorem caption_request_frame:
  "sent_requests (fst (caption w image_path prompt' m n api_key)) =
     map (with_text prompt') (sent_requests (fst (caption w image_path prompt m n api_key))) \<and>
   sent_requests (fst (caption w image_path prompt m n' api_key)) =
     map (\<lambda>r. r\<lparr>max_output_tokens := n'\<rparr>)
       (sent_requests (fst (caption w image_path prompt m n api_key)))"
  using sent_requests_caption [of w image_path prompt m n api_key]
  by (auto simp: with_text_request)


theorem caption_request_frame_witness:
  "sent_requests (fst (caption (demo_world (Some ''sk-demo'') None) ''cat.png''
       ''Make it a funny caption.'' default_model 80 None)) =
     [\<lparr>model = default_model,
       input = [\<lparr>role = ''user'',
                 content = [InputText ''Make it a funny caption.'',
                            InputImage ''data:image/png;base64,TWFu'']\<rparr>],
       max_output_tokens = 80\<rparr>] \<and>
   sent_requests (fst (caption (demo_world (Some ''sk-demo'') None) ''cat.png''
       default_prompt default_model 20 None)) =
     [\<lparr>model = default_model,
       input = [\<lparr>role = ''user'',
                 content = [InputText default_prompt,
                            InputImage ''data:image/png;base64,TWFu'']\<rparr>],
       max_output_tokens = 20\<rparr>]"
proof -
  let ?w = "demo_world (Some ''sk-demo'') None"
  have base: "sent_requests (fst (caption ?w ''cat.png'' default_prompt default_model 80 None)) =
     [\<lparr>model = default_model,
       input = [\<lparr>role = ''user'',
                 content = [InputText default_prompt,
                            InputImage ''data:image/png;base64,TWFu'']\<rparr>],
       max_output_tokens = 80\<rparr>]"
    by (simp add: demo_caption [OF demo_paths(1)])
  from caption_request_frame [of ?w "''cat.png''" "''Make it a funny caption.''" default_model 80
      None default_prompt 20]
  show ?thesis
    unfolding base by (simp add: with_text_request)
qed







text \<open>
  Claim C10. An empty \<open>api_key\<close> behaves exactly as no key: the environment is read;
  if the variable is unset or empty the call raises the missing-key error after that
  single read; and any key a client or request carries is the non-empty value of the
  environment variable, never the empty argument.
\<close>

theorem caption_empty_key:
  "caption w image_path prompt m n (Some []) = caption w image_path prompt m n None \<and>
   EnvGet ''OPENAI_API_KEY'' \<in> set (fst (caption w image_path prompt m n (Some []))) \<and>
   (environ w ''OPENAI_API_KEY'' = None \<or> environ w ''OPENAI_API_KEY'' = Some [] \<longrightarrow>
      caption w image_path prompt m n (Some []) =
        ([EnvGet ''OPENAI_API_KEY''],
         Inl (RuntimeError ''OPENAI_API_KEY is not set (and api_key was not provided).''))) \<and>
   (\<forall>k. ClientNew k \<in> set (fst (caption w image_path prompt m n (Some []))) \<or>
        (\<exists>r. ResponsesCreate k r \<in> set (fst (caption w image_path prompt m n (Some []))))
        \<longrightarrow> k \<noteq> [] \<and> environ w ''OPENAI_API_KEY'' = Some k)"
proof (intro conjI)
  show "caption w image_path prompt m n (Some []) = caption w image_path prompt m n None"
    by (simp add: caption_def)
  show "EnvGet ''OPENAI_API_KEY'' \<in> set (fst (caption w image_path prompt m n (Some [])))"
    by (auto simp: caption_def Let_def split: option.splits prod.splits sum.splits)
  show "environ w ''OPENAI_API_KEY'' = None \<or> environ w ''OPENAI_API_KEY'' = Some [] \<longrightarrow>
      caption w image_path prompt m n (Some []) =
        ([EnvGet ''OPENAI_API_KEY''],
         Inl (RuntimeError ''OPENAI_API_KEY is not set (and api_key was not provided).''))"
    by (simp add: caption_unresolved missing_key_def)
  show "\<forall>k. ClientNew k \<in> set (fst (caption w image_path prompt m n (Some []))) \<or>
        (\<exists>r. ResponsesCreate k r \<in> set (fst (caption w image_path prompt m n (Some []))))
        \<longrightarrow> k \<noteq> [] \<and> environ w ''OPENAI_API_KEY'' = Some k"
  proof (intro allI impI)
  fix k
  assume k: "ClientNew k \<in> set (fst (caption w image_path prompt m n (Some []))) \<or>
        (\<exists>r. ResponsesCreate k r \<in> set (fst (caption w image_path prompt m n (Some []))))"
  have enc: "ClientNew k \<notin> set (fst (file_to_data_url w p))"
    "ResponsesCreate k r \<notin> set (fst (file_to_data_url w p))" for p r
    using encoder_events [of w p] by auto
  show "k \<noteq> [] \<and> environ w ''OPENAI_API_KEY'' = Some k"
  proof (cases "Some ([]::string)" w rule: key_cases)
    case missing
    with k show ?thesis by (simp add: caption_unresolved)
  next
    case (given k')
    then show ?thesis by simp
  next
    case (env k')
    then have run: "Some [] = Some k' \<and> k' \<noteq> [] \<and> [EnvGet ''OPENAI_API_KEY''] = [] \<or>
        \<not> truthy (Some []) \<and> environ w ''OPENAI_API_KEY'' = Some k' \<and> k' \<noteq> [] \<and>
        [EnvGet ''OPENAI_API_KEY''] = [EnvGet ''OPENAI_API_KEY'']" by simp
    obtain te res where e: "file_to_data_url w (resolve w (expanduser w image_path)) = (te, res)"
      by (cases "file_to_data_url w (resolve w (expanduser w image_path))")
    have te: "ClientNew k \<notin> set te" "ResponsesCreate k r \<notin> set te" for r
      using enc [where p = "resolve w (expanduser w image_path)"] e by simp_all
    from k te env show ?thesis
      by (cases res) (auto simp: caption_resolved [OF run] e)
  qed
qed
qed

theorem caption_empty_key_witness:
  "caption (demo_world None None) ''cat.png'' default_prompt default_model
     default_max_output_tokens (Some []) =
     ([EnvGet ''OPENAI_API_KEY''],
      Inl (RuntimeError ''OPENAI_API_KEY is not set (and api_key was not provided).'')) \<and>
   caption (demo_world (Some []) None) ''cat.png'' default_prompt default_model
     default_max_output_tokens (Some []) =
     ([EnvGet ''OPENAI_API_KEY''],
      Inl (RuntimeError ''OPENAI_API_KEY is not set (and api_key was not provided).'')) \<and>
   ClientNew ''sk-demo'' \<in> set (fst (caption (demo_world (Some ''sk-demo'') None) ''cat.png''
     default_prompt default_model default_max_output_tokens (Some []))) \<and>
   environ (demo_world (Some ''sk-demo'') None) ''OPENAI_API_KEY'' = Some ''sk-demo''"
proof -
  have unset: "environ (demo_world None None) ''OPENAI_API_KEY'' = None \<or>
               environ (demo_world None None) ''OPENAI_API_KEY'' = Some []"
    and empty: "environ (demo_world (Some []) None) ''OPENAI_API_KEY'' = None \<or>
                environ (demo_world (Some []) None) ''OPENAI_API_KEY'' = Some []"
    by (simp_all add: demo_world_simps)
  have a: "caption (demo_world None None) ''cat.png'' default_prompt default_model
     default_max_output_tokens (Some []) =
     ([EnvGet ''OPENAI_API_KEY''],
      Inl (RuntimeError ''OPENAI_API_KEY is not set (and api_key was not provided).''))"
    using caption_empty_key [of "demo_world None None" "''cat.png''" default_prompt default_model
      default_max_output_tokens] unset by blast
  have b: "caption (demo_world (Some []) None) ''cat.png'' default_prompt default_model
     default_max_output_tokens (Some []) =
     ([EnvGet ''OPENAI_API_KEY''],
      Inl (RuntimeError ''OPENAI_API_KEY is not set (and api_key was not provided).''))"
    using caption_empty_key [of "demo_world (Some []) None" "''cat.png''" default_prompt
      default_model default_max_output_tokens] empty by blast
  have same: "caption (demo_world (Some ''sk-demo'') None) ''cat.png'' default_prompt
      default_model default_max_output_tokens (Some []) =
    caption (demo_world (Some ''sk-demo'') None) ''cat.png'' default_prompt
      default_model default_max_output_tokens None"
    using caption_empty_key [of "demo_world (Some ''sk-demo'') None" "''cat.png''" default_prompt
      default_model default_max_output_tokens] by blast
  have c: "ClientNew ''sk-demo'' \<in> set (fst (caption (demo_world (Some ''sk-demo'') None)
     ''cat.png'' default_prompt default_model default_max_output_tokens (Some [])))"
    unfolding same by (simp add: demo_caption [OF demo_paths(1)])
  have d: "environ (demo_world (Some ''sk-demo'') None) ''OPENAI_API_KEY'' = Some ''sk-demo''"
    by (simp add: demo_world_simps)
  from a b c d show ?thesis by (intro conjI)
qed

end
